theory Spec2Isabelle
  imports Main
begin

section \<open>Terminal documents of Teleport Connect: \<open>useDocumentTerminal.ts\<close>\<close>

text \<open>
  The development embeds \<open>web/packages/teleterm/src/ui/DocumentTerminal/useDocumentTerminal.ts\<close>.
  Asynchronous functions are run to completion in program order; every call on a service
  outside the file (the documents service, the logger, the usage and notification services)
  is recorded, in the order in which it is issued, in a list of effects that the function
  returns next to its result. A thrown error (a rejected promise) is the left injection of
  the result.
\<close>

subsection \<open>Values\<close>

type_synonym uri = string

text \<open>
  The errors that the file throws, catches or lets through. \<open>instanceof
  AmbiguousHostnameError\<close> is the test for the first constructor. \<open>TypeError\<close> is what the
  runtime raises on a property read from \<open>undefined\<close> or \<open>null\<close>.
\<close>

datatype js_error =
    AmbiguousHostnameError (message: string)
  | Error (message: string)
  | TypeError (message: string)

datatype doc_kind = doc_terminal_shell | doc_terminal_tsh_node | doc_terminal_tsh_kube

datatype doc_status = connecting | connected | error

text \<open>
  A terminal document is a plain object. A property that is absent or \<open>undefined\<close> is
  \<open>None\<close>, so \<open>'status' in doc\<close> is \<open>status doc \<noteq> None\<close>. The fields that are specific to a
  Kubernetes document are never read one by one in this file (the command builder copies
  the whole object) and are left out.
\<close>

record document =
  kind :: doc_kind
  uri :: uri
  title :: "string option"
  status :: "doc_status option"
  rootClusterId :: "string option"
  leafClusterId :: "string option"
  loginHost :: "string option"
  serverId :: "string option"
  serverUri :: "uri option"
  login :: "string option"
  cwd :: "string option"
  initCommand :: "string option"

text \<open>
  The second argument of \<open>documentsService.update\<close> is a partial document. A key that the
  object literal does not mention is \<open>Keep\<close>; a key that it mentions is \<open>Set v\<close>, where
  \<open>v = None\<close> when the literal gives \<open>undefined\<close>.
\<close>

datatype 'a upd = Keep | Set 'a

record doc_fields =
  f_title :: "string option upd"
  f_status :: "doc_status option upd"
  f_loginHost :: "string option upd"
  f_serverId :: "string option upd"
  f_serverUri :: "uri option upd"
  f_login :: "string option upd"
  f_cwd :: "string option upd"
  f_initCommand :: "string option upd"

definition no_fields :: doc_fields where
  "no_fields = \<lparr>f_title = Keep, f_status = Keep, f_loginHost = Keep, f_serverId = Keep,
     f_serverUri = Keep, f_login = Keep, f_cwd = Keep, f_initCommand = Keep\<rparr>"

fun upd_apply :: "'a upd \<Rightarrow> 'a \<Rightarrow> 'a" where
  "upd_apply Keep old = old"
| "upd_apply (Set v) old = v"

text \<open>The object spread \<open>{ ...doc, ...fields }\<close>.\<close>

definition spread :: "document \<Rightarrow> doc_fields \<Rightarrow> document" where
  "spread doc fs = doc\<lparr>
     title := upd_apply (f_title fs) (title doc),
     status := upd_apply (f_status fs) (status doc),
     loginHost := upd_apply (f_loginHost fs) (loginHost doc),
     serverId := upd_apply (f_serverId fs) (serverId doc),
     serverUri := upd_apply (f_serverUri fs) (serverUri doc),
     login := upd_apply (f_login fs) (login doc),
     cwd := upd_apply (f_cwd fs) (cwd doc),
     initCommand := upd_apply (f_initCommand fs) (initCommand doc)\<rparr>"

type_synonym pty_process = nat

datatype effect =
    DocumentsUpdate uri doc_fields
  | DocumentsClose uri
  | LoggerError string
  | CaptureProtocolUse uri string
  | NotifyWarning string
  | Dispose pty_process

type_synonym 'a outcome = "effect list \<times> (js_error + 'a)"

subsection \<open>Collaborators that the file imports\<close>

text \<open>
  \<open>routing\<close> (\<open>teleterm/ui/uri\<close>) and the services of the application context are imported
  by the file and are parameters here. \<open>parseServerUri\<close> and \<open>parseClusterUri\<close> return the
  \<open>params\<close> of the match, or \<open>None\<close> when the URI does not match (the source then reads
  \<open>.params\<close> of \<open>null\<close>).
\<close>

record server_params =
  sp_rootClusterId :: "string option"
  sp_leafClusterId :: "string option"
  sp_serverId :: string

record cluster_params =
  cp_rootClusterId :: "string option"
  cp_leafClusterId :: "string option"

record routing =
  getClusterUri :: "string option \<Rightarrow> string option \<Rightarrow> uri"
  getServerUri :: "string option \<Rightarrow> string option \<Rightarrow> string \<Rightarrow> uri"
  parseServerUri :: "uri \<Rightarrow> server_params option"
  parseClusterUri :: "uri \<Rightarrow> cluster_params option"

record server =
  srv_uri :: uri
  srv_hostname :: string

record cluster =
  cl_name :: string
  cl_proxyHost :: string

datatype creation_status = Ok | ResolveShellEnvTimeout

text \<open>
  The command that \<open>createCmd\<close> builds. The SSH command lists its properties; the other
  two spread the whole document into the command and then set the properties of the
  command, so they carry the document.
\<close>

datatype pty_command =
    pty_tsh_login
      (proxyHost: string) (clusterName: string)
      (cmd_login: "string option") (cmd_serverId: "string option")
      (cmd_rootClusterId: "string option") (cmd_leafClusterId: "string option")
  | pty_tsh_kube_login
      (cmd_doc: document) (proxyHost: string) (clusterName: string)
  | pty_shell
      (cmd_doc: document) (proxyHost: string) (clusterName: string)
      (cmd_cwd: "string option") (cmd_initCommand: "string option")

text \<open>
  The application context \<open>ctx\<close>. \<open>getServerByHostname\<close> returns the server, \<open>None\<close> for
  \<open>undefined\<close>, or throws. \<open>retryWithRelogin\<close> (\<open>teleterm/ui/utils\<close>) takes the cluster URI
  and the action and gives the action's outcome, possibly after running it again.
\<close>

record app_context =
  getServerByHostname :: "uri \<Rightarrow> string \<Rightarrow> js_error + server option"
  retryWithRelogin :: "uri \<Rightarrow> (unit \<Rightarrow> js_error + server option) \<Rightarrow> js_error + server option"
  findCluster :: "uri \<Rightarrow> cluster option"
  findRootClusterByResource :: "uri \<Rightarrow> cluster option"
  terminalsService_createPtyProcess :: "pty_command \<Rightarrow> js_error + pty_process \<times> creation_status"

subsection \<open>Strings\<close>

text \<open>
  \<open>String.prototype.split\<close> with a separator of one character: the result is never empty,
  and a string without the separator is returned whole as the only element.
\<close>

fun split :: "char \<Rightarrow> string \<Rightarrow> string list" where
  "split sep [] = [[]]"
| "split sep (c # cs) =
     (if c = sep then [] # split sep cs
      else (case split sep cs of
              [] \<Rightarrow> [[c]]
            | p # ps \<Rightarrow> (c # p) # ps))"

text \<open>\<open>Array.prototype.join\<close> with a separator of one character.\<close>

fun join :: "char \<Rightarrow> string list \<Rightarrow> string" where
  "join sep [] = []"
| "join sep [p] = p"
| "join sep (p # q # ps) = p @ sep # join sep (q # ps)"

text \<open>The truth value of \<open>s\<close> where \<open>s\<close> is a string or \<open>undefined\<close>.\<close>

fun truthy :: "string option \<Rightarrow> bool" where
  "truthy None = False"
| "truthy (Some s) = (s \<noteq> [])"

subsection \<open>\<open>resolveLoginHost\<close>\<close>

text \<open>
  Lines 109 to 129: the login and the host of \<open>doc.loginHost\<close>. \<open>parts.pop()\<close> removes
  and returns the last part, and the remaining parts are joined. \<open>split\<close> never returns the
  empty array (\<open>split_not_Nil\<close> below), so \<open>parts[0]\<close> is always there.
\<close>

definition splitLoginHost :: "string \<Rightarrow> string option \<times> string" where
  "splitLoginHost lh =
     (let parts = split (CHR ''@'') lh in
      if length parts > 1
      then (Some (join (CHR ''@'') (butlast parts)), last parts)
      else (None, hd parts))"

text \<open>
  Modelled from the spec: \<open>isDocumentTshNodeWithLoginHost\<close> of
  \<open>teleterm/ui/services/workspacesService\<close> is imported and not part of the file. An SSH
  document either still has its login host or has the \<open>serverId\<close> to which the login host
  was resolved. The guard holds of an SSH document that has no \<open>serverId\<close>; the error
  message of \<open>createCmd\<close> names the document of the guard in the same way.
\<close>

definition isDocumentTshNodeWithLoginHost :: "document \<Rightarrow> bool" where
  "isDocumentTshNodeWithLoginHost doc \<longleftrightarrow>
     kind doc = doc_terminal_tsh_node \<and> serverId doc = None"

text \<open>Line 165: the title, with the login in front when \<open>login\<close> is truthy.\<close>

definition title_of_login :: "string option \<Rightarrow> string \<Rightarrow> string" where
  "title_of_login lg serverHostname =
     (case lg of
        Some l \<Rightarrow> (if truthy lg then l @ ''@'' @ serverHostname else serverHostname)
      | None \<Rightarrow> serverHostname)"

definition docFieldsToUpdate ::
  "uri \<Rightarrow> string \<Rightarrow> string option \<Rightarrow> string \<Rightarrow> doc_fields" where
  "docFieldsToUpdate sUri sId lg ttl = no_fields\<lparr>
     f_loginHost := Set None,
     f_serverId := Set (Some sId),
     f_serverUri := Set (Some sUri),
     f_login := Set lg,
     f_title := Set (Some ttl)\<rparr>"

definition resolveLoginHost :: "routing \<Rightarrow> app_context \<Rightarrow> document \<Rightarrow> document outcome" where
  "resolveLoginHost r ctx doc =
     (case loginHost doc of
        None \<Rightarrow> ([], Inl (TypeError ''Cannot read properties of undefined (reading 'split')''))
      | Some lh \<Rightarrow>
          let (lg, host) = splitLoginHost lh;
              clusterUri = getClusterUri r (rootClusterId doc) (leafClusterId doc);
              looked = retryWithRelogin ctx clusterUri
                         (\<lambda>_. getServerByHostname ctx clusterUri host);
              caught =
                (case looked of
                   Inr srv \<Rightarrow> ([], Inr srv)
                 | Inl err \<Rightarrow>
                     (case err of
                        AmbiguousHostnameError m \<Rightarrow> ([LoggerError m], Inr None)
                      | _ \<Rightarrow> ([], Inl err)))
          in (case caught of
                (effs, Inl err) \<Rightarrow> (effs, Inl err)
              | (effs, Inr srv) \<Rightarrow>
                  let (sUri, serverHostname) =
                        (case srv of
                           Some s \<Rightarrow> (srv_uri s, srv_hostname s)
                         | None \<Rightarrow>
                             (getServerUri r (rootClusterId doc) (leafClusterId doc) host, host));
                      ttl = title_of_login lg serverHostname
                  in (case parseServerUri r sUri of
                        None \<Rightarrow>
                          (effs, Inl (TypeError ''Cannot read properties of null (reading 'params')''))
                      | Some ps \<Rightarrow>
                          let fs = docFieldsToUpdate sUri (sp_serverId ps) lg ttl;
                              updatedDoc = spread doc fs
                          in (effs @ [DocumentsUpdate (uri doc) fs], Inr updatedDoc))))"

subsection \<open>\<open>createCmd\<close>\<close>

definition createCmd :: "document \<Rightarrow> string \<Rightarrow> string \<Rightarrow> js_error + pty_command" where
  "createCmd doc pHost cName =
     (if kind doc = doc_terminal_tsh_node then
        (if isDocumentTshNodeWithLoginHost doc
         then Inl (Error ''Cannot create a PTY for doc.terminal_tsh_node without serverId'')
         else Inr (pty_tsh_login pHost cName (login doc) (serverId doc)
                     (rootClusterId doc) (leafClusterId doc)))
      else if kind doc = doc_terminal_tsh_kube then
        Inr (pty_tsh_kube_login doc pHost cName)
      else
        Inr (pty_shell doc pHost cName (cwd doc) (initCommand doc)))"

subsection \<open>\<open>setUpPtyProcess\<close>\<close>

definition getClusterName :: "routing \<Rightarrow> app_context \<Rightarrow> uri \<Rightarrow> js_error + string" where
  "getClusterName r ctx clusterUri =
     (case findCluster ctx clusterUri of
        Some cl \<Rightarrow> Inr (cl_name cl)
      | None \<Rightarrow>
          (case parseClusterUri r clusterUri of
             None \<Rightarrow> Inl (Error ''The leaf cluster URI was expected, but the URI does not contain the leaf cluster ID'')
           | Some ps \<Rightarrow>
               (if truthy (cp_leafClusterId ps)
                then (case cp_leafClusterId ps of
                        Some leaf \<Rightarrow> Inr leaf
                      | None \<Rightarrow> Inl (Error ''The leaf cluster URI was expected, but the URI does not contain the leaf cluster ID''))
                else Inl (Error ''The leaf cluster URI was expected, but the URI does not contain the leaf cluster ID''))))"

definition createPtyProcess :: "app_context \<Rightarrow> pty_command \<Rightarrow> pty_process outcome" where
  "createPtyProcess ctx cmd =
     (case terminalsService_createPtyProcess ctx cmd of
        Inl err \<Rightarrow> ([], Inl err)
      | Inr (process, creationStatus) \<Rightarrow>
          ((if creationStatus = ResolveShellEnvTimeout
            then [NotifyWarning ''Could not source environment variables for shell session'']
            else []),
           Inr process))"

text \<open>
  Modelled from the spec: \<open>runOnce\<close> of \<open>shared/utils/highbar\<close> is imported and not part of
  the file. The spec asks for a one-shot gate, a boolean flag that belongs to the closure
  of one attempt: the wrapped function runs on the first call and on no later call. The
  flag is \<open>True\<close> once the function has been called. \<open>runOnce\<close> is the flag of a function
  that has just been wrapped, and \<open>runOnce_call\<close> is one call of the wrapped function, given
  the calls that its body would issue.
\<close>

definition runOnce :: bool where
  "runOnce = False"

definition runOnce_call :: "bool \<Rightarrow> effect list \<Rightarrow> bool \<times> effect list" where
  "runOnce_call called body = (True, if called then [] else body)"

text \<open>
  What the closures of one call of \<open>setUpPtyProcess\<close> share: the process, the document and
  the command of the call, the cluster URI, and the state of
  \<open>markDocumentAsConnectedOnce\<close>.
\<close>

record terminal_session =
  ptyProcess :: pty_process
  ts_doc :: document
  ts_cmd :: pty_command
  ts_clusterUri :: uri
  markDocumentAsConnectedOnce :: bool

definition setUpPtyProcess ::
  "routing \<Rightarrow> app_context \<Rightarrow> document \<Rightarrow> terminal_session outcome" where
  "setUpPtyProcess r ctx doc =
     (let clusterUri = getClusterUri r (rootClusterId doc) (leafClusterId doc) in
      case findRootClusterByResource ctx clusterUri of
        None \<Rightarrow> ([], Inl (TypeError ''Cannot read properties of undefined (reading 'proxyHost')''))
      | Some rootCluster \<Rightarrow>
          (case getClusterName r ctx clusterUri of
             Inl err \<Rightarrow> ([], Inl err)
           | Inr cName \<Rightarrow>
               (case createCmd doc (cl_proxyHost rootCluster) cName of
                  Inl err \<Rightarrow> ([], Inl err)
                | Inr cmd \<Rightarrow>
                    (case createPtyProcess ctx cmd of
                       (effs, Inl err) \<Rightarrow> (effs, Inl err)
                     | (effs, Inr process) \<Rightarrow>
                         (effs
                          @ (if is_pty_tsh_login cmd then [CaptureProtocolUse clusterUri ''ssh''] else [])
                          @ (if is_pty_tsh_kube_login cmd then [CaptureProtocolUse clusterUri ''kube''] else []),
                          Inr \<lparr>ptyProcess = process, ts_doc = doc, ts_cmd = cmd,
                               ts_clusterUri = clusterUri,
                               markDocumentAsConnectedOnce = runOnce\<rparr>)))))"

text \<open>The JavaScript \<open>a || b\<close> on a string that may be \<open>undefined\<close>.\<close>

definition or_else :: "string option \<Rightarrow> string \<Rightarrow> string" where
  "or_else a b = (case a of Some s \<Rightarrow> (if truthy a then s else b) | None \<Rightarrow> b)"

text \<open>The separator of the title of a shell document: a space, U+00B7, a space.\<close>

definition title_separator :: string where
  "title_separator = [CHR '' '', CHR 0xB7, CHR '' '']"

text \<open>
  \<open>refreshTitle\<close> takes the value to which \<open>ptyProcess.getCwd()\<close> resolves. When
  \<open>getClusterName\<close> throws, the promise of \<open>refreshTitle\<close> is rejected, nothing handles it
  and no update is issued.
\<close>

definition refreshTitle ::
  "routing \<Rightarrow> app_context \<Rightarrow> terminal_session \<Rightarrow> string option \<Rightarrow> effect list" where
  "refreshTitle r ctx s cwdNow =
     (if \<not> is_pty_shell (ts_cmd s) then []
      else (case getClusterName r ctx (ts_clusterUri s) of
              Inl err \<Rightarrow> []
            | Inr cName \<Rightarrow>
                [DocumentsUpdate (uri (ts_doc s))
                   (no_fields\<lparr>f_cwd := Set cwdNow,
                      f_title := Set (Some (or_else cwdNow ''Terminal'' @ title_separator @ cName))\<rparr>)]))"

definition removeInitCommand :: "terminal_session \<Rightarrow> effect list" where
  "removeInitCommand s =
     (if kind (ts_doc s) \<noteq> doc_terminal_shell then []
      else [DocumentsUpdate (uri (ts_doc s)) (no_fields\<lparr>f_initCommand := Set None\<rparr>)])"

text \<open>
  The listener of \<open>onOpen\<close> calls \<open>refreshTitle\<close> and then \<open>removeInitCommand\<close>.
  \<open>refreshTitle\<close> suspends at \<open>await ptyProcess.getCwd()\<close> before its update, so the update of
  \<open>removeInitCommand\<close> is issued first.
\<close>

definition onOpen ::
  "routing \<Rightarrow> app_context \<Rightarrow> terminal_session \<Rightarrow> string option \<Rightarrow> effect list" where
  "onOpen r ctx s cwdNow = removeInitCommand s @ refreshTitle r ctx s cwdNow"

definition onData :: "terminal_session \<Rightarrow> terminal_session \<times> effect list" where
  "onData s =
     (let (called, effs) =
            runOnce_call (markDocumentAsConnectedOnce s)
              (if status (ts_doc s) \<noteq> None
               then [DocumentsUpdate (uri (ts_doc s)) (no_fields\<lparr>f_status := Set (Some connected)\<rparr>)]
               else [])
      in (s\<lparr>markDocumentAsConnectedOnce := called\<rparr>, effs))"

definition onExit :: "terminal_session \<Rightarrow> int \<Rightarrow> effect list" where
  "onExit s exitCode = (if exitCode = 0 then [DocumentsClose (uri (ts_doc s))] else [])"

text \<open>
  The events of a process: \<open>open\<close> with what \<open>getCwd\<close> then resolves to, \<open>data\<close>, and
  \<open>exit\<close> with the exit code.
\<close>

datatype pty_event = OpenEvent "string option" | DataEvent | ExitEvent int

fun dispatch ::
  "routing \<Rightarrow> app_context \<Rightarrow> terminal_session \<Rightarrow> pty_event \<Rightarrow> terminal_session \<times> effect list" where
  "dispatch r ctx s (OpenEvent cwdNow) = (s, onOpen r ctx s cwdNow)"
| "dispatch r ctx s DataEvent = onData s"
| "dispatch r ctx s (ExitEvent exitCode) = (s, onExit s exitCode)"

fun dispatch_all ::
  "routing \<Rightarrow> app_context \<Rightarrow> terminal_session \<Rightarrow> pty_event list \<Rightarrow> terminal_session \<times> effect list" where
  "dispatch_all r ctx s [] = (s, [])"
| "dispatch_all r ctx s (ev # evs) =
     (let (s', effs) = dispatch r ctx s ev;
          (s'', effs') = dispatch_all r ctx s' evs
      in (s'', effs @ effs'))"

subsection \<open>\<open>startTerminalSession\<close> and the hook\<close>

definition startTerminalSession ::
  "routing \<Rightarrow> app_context \<Rightarrow> document \<Rightarrow> terminal_session outcome" where
  "startTerminalSession r ctx doc =
     (if isDocumentTshNodeWithLoginHost doc
      then (case resolveLoginHost r ctx doc of
              (effs, Inl err) \<Rightarrow> (effs, Inl err)
            | (effs, Inr doc') \<Rightarrow>
                (case setUpPtyProcess r ctx doc' of (effs', res) \<Rightarrow> (effs @ effs', res)))
      else setUpPtyProcess r ctx doc)"

text \<open>The asynchronous function that the hook hands to \<open>useAsync\<close> (lines 43 to 58).\<close>

definition startTerminal_callback ::
  "routing \<Rightarrow> app_context \<Rightarrow> document \<Rightarrow> terminal_session outcome" where
  "startTerminal_callback r ctx doc =
     (case startTerminalSession r ctx doc of
        (effs, Inl err) \<Rightarrow>
          (effs @ (if status doc \<noteq> None
                   then [DocumentsUpdate (uri doc) (no_fields\<lparr>f_status := Set (Some error)\<rparr>)]
                   else []),
           Inl err)
      | (effs, Inr s) \<Rightarrow> (effs, Inr s))"

text \<open>
  Modelled from the spec: \<open>useAsync\<close> of \<open>shared/hooks/useAsync\<close> is imported and not part
  of the file. An attempt is idle (its status is the empty string), running, a success with
  its payload, or an error; a start replaces the current attempt by a running one, runs the
  callback, and makes the outcome of the callback the current attempt.
\<close>

datatype attempt =
    Idle
  | Running
  | Success terminal_session
  | Failure js_error

text \<open>The function that the effect of lines 60 to 70 returns for the attempt it has seen.\<close>

definition useEffect_cleanup :: "attempt \<Rightarrow> effect list" where
  "useEffect_cleanup att = (case att of Success s \<Rightarrow> [Dispose (ptyProcess s)] | _ \<Rightarrow> [])"

text \<open>
  Modelled from the spec: the start of an attempt and the disposal of a superseded handle.
  The effect depends on the attempt, so each replacement of the current attempt runs the
  cleanup of the attempt that it replaces.
\<close>

definition startTerminal ::
  "routing \<Rightarrow> app_context \<Rightarrow> document \<Rightarrow> attempt \<Rightarrow> effect list \<times> attempt" where
  "startTerminal r ctx doc att =
     (case startTerminal_callback r ctx doc of
        (effs, res) \<Rightarrow>
          (useEffect_cleanup att @ effs @ useEffect_cleanup Running,
           (case res of Inl err \<Rightarrow> Failure err | Inr s \<Rightarrow> Success s)))"

text \<open>
  Lines 72 to 77: the update of the status when the document has one, then
  \<open>startTerminal()\<close>. The last argument is the attempt that is current at the call.
\<close>

definition reconnect ::
  "routing \<Rightarrow> app_context \<Rightarrow> document \<Rightarrow> attempt \<Rightarrow> effect list \<times> attempt" where
  "reconnect r ctx doc att =
     (case startTerminal r ctx doc att of
        (effs, att') \<Rightarrow>
          ((if status doc \<noteq> None
            then [DocumentsUpdate (uri doc) (no_fields\<lparr>f_status := Set (Some connecting)\<rparr>)]
            else []) @ effs,
           att'))"

subsection \<open>The documents service\<close>

text \<open>
  Modelled from the spec: the documents service (\<open>DocumentsService\<close> of
  \<open>teleterm/ui/services/workspacesService\<close>) is imported and not part of the file.
  \<open>update(documentUri, partialFields)\<close> applies a merge-patch to the document,
  \<open>close(documentUri)\<close> removes the document from the workspace. Calls on the other services
  leave the documents as they are.
\<close>

type_synonym documents = "uri \<rightharpoonup> document"

fun documents_apply :: "documents \<Rightarrow> effect \<Rightarrow> documents" where
  "documents_apply ds (DocumentsUpdate u fs) =
     (case ds u of None \<Rightarrow> ds | Some d \<Rightarrow> ds(u \<mapsto> spread d fs))"
| "documents_apply ds (DocumentsClose u) = ds(u := None)"
| "documents_apply ds (LoggerError m) = ds"
| "documents_apply ds (CaptureProtocolUse u p) = ds"
| "documents_apply ds (NotifyWarning t) = ds"
| "documents_apply ds (Dispose p) = ds"

definition documents_after :: "documents \<Rightarrow> effect list \<Rightarrow> documents" where
  "documents_after ds effs = foldl documents_apply ds effs"

subsection \<open>Calls that a trace holds\<close>

fun is_update :: "effect \<Rightarrow> bool" where
  "is_update (DocumentsUpdate u fs) = True"
| "is_update _ = False"

fun is_status_update :: "effect \<Rightarrow> bool" where
  "is_status_update (DocumentsUpdate u fs) = (f_status fs \<noteq> Keep)"
| "is_status_update _ = False"

fun is_close :: "effect \<Rightarrow> bool" where
  "is_close (DocumentsClose u) = True"
| "is_close _ = False"

subsection \<open>Concrete collaborators and documents\<close>

text \<open>
  A routing, a context and documents at which the theorems below are evaluated. The routing
  writes a server URI as the cluster URI followed by \<open>/servers/\<close> and the server id, and
  reads the server id as the last segment of a URI. The context answers every lookup of a
  server with the given outcome, knows every cluster as \<open>prod\<close>, and creates process \<open>1\<close>.
\<close>

definition example_routing :: routing where
  "example_routing =
     \<lparr>getClusterUri = (\<lambda>root leaf.
          ''/clusters/'' @ (case root of Some x \<Rightarrow> x | None \<Rightarrow> [])
          @ (case leaf of Some x \<Rightarrow> ''/leaves/'' @ x | None \<Rightarrow> [])),
       getServerUri = (\<lambda>root leaf sId.
          ''/clusters/'' @ (case root of Some x \<Rightarrow> x | None \<Rightarrow> [])
          @ (case leaf of Some x \<Rightarrow> ''/leaves/'' @ x | None \<Rightarrow> [])
          @ ''/servers/'' @ sId),
       parseServerUri = (\<lambda>u.
          Some \<lparr>sp_rootClusterId = None, sp_leafClusterId = None,
                sp_serverId = last (split (CHR ''/'') u)\<rparr>),
       parseClusterUri = (\<lambda>u. None)\<rparr>"

definition example_ctx :: "js_error + server option \<Rightarrow> app_context" where
  "example_ctx looked =
     \<lparr>getServerByHostname = (\<lambda>clusterUri host. looked),
       retryWithRelogin = (\<lambda>clusterUri action. action ()),
       findCluster = (\<lambda>u. Some \<lparr>cl_name = ''prod'', cl_proxyHost = ''prod.example.com:3080''\<rparr>),
       findRootClusterByResource =
         (\<lambda>u. Some \<lparr>cl_name = ''prod'', cl_proxyHost = ''prod.example.com:3080''\<rparr>),
       terminalsService_createPtyProcess = (\<lambda>cmd. Inr (1, Ok))\<rparr>"

definition example_doc :: "doc_kind \<Rightarrow> document" where
  "example_doc k =
     \<lparr>kind = k, uri = ''/docs/1'', title = Some [],
       status = (if k = doc_terminal_shell then None else Some connecting),
       rootClusterId = Some ''prod'', leafClusterId = None,
       loginHost = None, serverId = None, serverUri = None, login = None,
       cwd = None, initCommand = None\<rparr>"

definition example_loginHost_doc :: "string \<Rightarrow> document" where
  "example_loginHost_doc lh = (example_doc doc_terminal_tsh_node)\<lparr>loginHost := Some lh\<rparr>"

definition example_server :: server where
  "example_server =
     \<lparr>srv_uri = ''/clusters/prod/servers/1f4c0b5e'', srv_hostname = ''webserver1''\<rparr>"

text \<open>
  The sessions that \<open>setUpPtyProcess\<close> returns in this context for the shell document and
  for the Kubernetes document.
\<close>

definition example_shell_session :: terminal_session where
  "example_shell_session =
     \<lparr>ptyProcess = 1, ts_doc = example_doc doc_terminal_shell,
       ts_cmd = pty_shell (example_doc doc_terminal_shell) ''prod.example.com:3080'' ''prod''
                  None None,
       ts_clusterUri = ''/clusters/prod'', markDocumentAsConnectedOnce = False\<rparr>"

definition example_kube_session :: terminal_session where
  "example_kube_session =
     \<lparr>ptyProcess = 1, ts_doc = example_doc doc_terminal_tsh_kube,
       ts_cmd = pty_tsh_kube_login (example_doc doc_terminal_tsh_kube)
                  ''prod.example.com:3080'' ''prod'',
       ts_clusterUri = ''/clusters/prod'', markDocumentAsConnectedOnce = False\<rparr>"

section \<open>Properties\<close>

subsection \<open>Splitting and joining\<close>

lemma split_not_Nil: "split sep s \<noteq> []"
  by (induction s) (auto split: list.splits)

lemma split_no_sep: "sep \<notin> set s \<Longrightarrow> split sep s = [s]"
  by (induction s) auto

lemma length_split_gt_1: "1 < length (split sep s) \<longleftrightarrow> sep \<in> set s"
proof (induction s)
  case Nil
  show ?case by simp
next
  case (Cons c cs)
  show ?case
  proof (cases "c = sep")
    case True
    then show ?thesis using split_not_Nil [of sep cs] by (cases "split sep cs") auto
  next
    case False
    then show ?thesis using Cons split_not_Nil [of sep cs] by (cases "split sep cs") auto
  qed
qed

lemma split_append_sep:
  "sep \<notin> set h \<Longrightarrow> split sep (l @ sep # h) = split sep l @ [h]"
proof (induction l)
  case Nil
  then show ?case by (simp add: split_no_sep)
next
  case (Cons c cs)
  then show ?case using split_not_Nil [of sep cs]
    by (cases "split sep cs") auto
qed

lemma join_split: "join sep (split sep s) = s"
proof (induction s)
  case Nil
  show ?case by simp
next
  case (Cons c cs)
  show ?case
  proof (cases "split sep cs")
    case Nil
    then show ?thesis using split_not_Nil [of sep cs] by simp
  next
    case (Cons p ps)
    then show ?thesis using Cons.IH
      by (cases ps) auto
  qed
qed

lemma splitLoginHost_no_at:
  "CHR ''@'' \<notin> set lh \<Longrightarrow> splitLoginHost lh = (None, lh)"
  by (simp add: splitLoginHost_def split_no_sep)

lemma splitLoginHost_at:
  "CHR ''@'' \<notin> set h \<Longrightarrow> splitLoginHost (l @ ''@'' @ h) = (Some l, h)"
  using split_not_Nil [of "CHR ''@''" l]
  by (simp add: splitLoginHost_def split_append_sep join_split Let_def)

subsection \<open>The login and the host of a login host\<close>

text \<open>
  Claim C2. \<open>resolveLoginHost\<close> splits \<open>loginHost\<close> on \<open>@\<close>. A string without \<open>@\<close> is the
  host as a whole and there is no login. A string with \<open>@\<close> gives more than one part; the
  last part is the host and the parts before it, joined with \<open>@\<close>, are the login. Put
  differently: the string is cut at its last \<open>@\<close>, so that \<open>a@b@c\<close> has the login \<open>a@b\<close>
  and the host \<open>c\<close>.
\<close>

theorem splitLoginHost_parts:
  "(CHR ''@'' \<notin> set lh \<longrightarrow> splitLoginHost lh = (None, lh)) \<and>
   (CHR ''@'' \<in> set lh \<longrightarrow>
      1 < length (split (CHR ''@'') lh) \<and>
      splitLoginHost lh =
        (Some (join (CHR ''@'') (butlast (split (CHR ''@'') lh))), last (split (CHR ''@'') lh))) \<and>
   (\<forall>l h. lh = l @ ''@'' @ h \<and> CHR ''@'' \<notin> set h \<longrightarrow> splitLoginHost lh = (Some l, h))"
proof (intro conjI impI allI)
  assume "CHR ''@'' \<notin> set lh"
  then show "splitLoginHost lh = (None, lh)" by (rule splitLoginHost_no_at)
next
  assume "CHR ''@'' \<in> set lh"
  then show "1 < length (split (CHR ''@'') lh)" by (rule iffD2 [OF length_split_gt_1])
next
  assume "CHR ''@'' \<in> set lh"
  then have "1 < length (split (CHR ''@'') lh)" by (rule iffD2 [OF length_split_gt_1])
  then show "splitLoginHost lh =
      (Some (join (CHR ''@'') (butlast (split (CHR ''@'') lh))), last (split (CHR ''@'') lh))"
    by (simp add: splitLoginHost_def Let_def)
next
  fix l h
  assume "lh = l @ ''@'' @ h \<and> CHR ''@'' \<notin> set h"
  then show "splitLoginHost lh = (Some l, h)" using splitLoginHost_at by blast
qed

theorem splitLoginHost_parts_witness:
  "splitLoginHost ''a@b@c'' = (Some ''a@b'', ''c'') \<and> splitLoginHost ''host'' = (None, ''host'')"
proof -
  have "splitLoginHost ''a@b@c'' = (Some ''a@b'', ''c'')"
    using splitLoginHost_parts [of "''a@b@c''"] by simp
  moreover have "splitLoginHost ''host'' = (None, ''host'')"
    using splitLoginHost_parts [of "''host''"] by simp
  ultimately show ?thesis by simp
qed


subsection \<open>What \<open>resolveLoginHost\<close> returns and issues\<close>

lemma resolveLoginHost_Inr:
  assumes lh: "loginHost doc = Some lh"
    and parts: "splitLoginHost lh = (lg, host)"
    and cluster: "clusterUri = getClusterUri r (rootClusterId doc) (leafClusterId doc)"
    and looked: "retryWithRelogin ctx clusterUri (\<lambda>_. getServerByHostname ctx clusterUri host) = looked"
    and target: "(sUri, hostname) =
        (case looked of
           Inr (Some srv) \<Rightarrow> (srv_uri srv, srv_hostname srv)
         | _ \<Rightarrow> (getServerUri r (rootClusterId doc) (leafClusterId doc) host, host))"
    and ret: "resolveLoginHost r ctx doc = (effs, Inr doc')"
  shows "\<exists>ps. parseServerUri r sUri = Some ps \<and>
      effs = (case looked of Inl err \<Rightarrow> [LoggerError (message err)] | Inr srv \<Rightarrow> [])
             @ [DocumentsUpdate (uri doc)
                  (docFieldsToUpdate sUri (sp_serverId ps) lg (title_of_login lg hostname))] \<and>
      doc' = spread doc (docFieldsToUpdate sUri (sp_serverId ps) lg (title_of_login lg hostname))"
  using assms
  by (auto simp: resolveLoginHost_def Let_def
      split: sum.splits js_error.splits option.splits)

lemma resolveLoginHost_Inl:
  assumes "resolveLoginHost r ctx doc = (effs, Inl err)"
  shows "filter is_update effs = []"
  using assms
  by (auto simp: resolveLoginHost_def Let_def
      split: sum.splits js_error.splits option.splits prod.splits)

lemma resolveLoginHost_throw:
  assumes lh: "loginHost doc = Some lh"
    and parts: "splitLoginHost lh = (lg, host)"
    and cluster: "clusterUri = getClusterUri r (rootClusterId doc) (leafClusterId doc)"
    and looked: "retryWithRelogin ctx clusterUri (\<lambda>_. getServerByHostname ctx clusterUri host) = Inl err"
    and other: "\<not> is_AmbiguousHostnameError err"
  shows "resolveLoginHost r ctx doc = ([], Inl err)"
  using assms
  by (cases err) (simp_all add: resolveLoginHost_def Let_def)




text \<open>
  Claim C3, amended. A login-host document is given. When \<open>resolveLoginHost\<close> throws, it has
  issued no update of the documents service. When it returns, it has issued exactly one
  update, for the URI of the document; the update sets \<open>serverId\<close>, \<open>serverUri\<close>, \<open>login\<close> and
  \<open>title\<close>, clears \<open>loginHost\<close> and mentions no other field; the returned document is the
  given one merged with these fields, so its \<open>loginHost\<close> is absent and its \<open>serverId\<close> and
  \<open>title\<close> are there. The title is the login, \<open>@\<close> and the host name when the login is
  present and not the empty string, and the host name alone otherwise. The host name is that
  of the server found, or the host when the lookup found none.
\<close>

theorem resolveLoginHost_update:
  assumes lh: "loginHost doc = Some lh"
    and parts: "splitLoginHost lh = (lg, host)"
    and cluster: "clusterUri = getClusterUri r (rootClusterId doc) (leafClusterId doc)"
    and looked: "retryWithRelogin ctx clusterUri (\<lambda>_. getServerByHostname ctx clusterUri host) = looked"
    and target: "(sUri, hostname) =
        (case looked of
           Inr (Some srv) \<Rightarrow> (srv_uri srv, srv_hostname srv)
         | _ \<Rightarrow> (getServerUri r (rootClusterId doc) (leafClusterId doc) host, host))"
    and ttl: "ttl = (case lg of
                       None \<Rightarrow> hostname
                     | Some l \<Rightarrow> (if l = [] then hostname else l @ ''@'' @ hostname))"
    and run: "resolveLoginHost r ctx doc = (effs, res)"
  shows "case res of
           Inl err \<Rightarrow> filter is_update effs = []
         | Inr doc' \<Rightarrow>
             (\<exists>ps fs.
                parseServerUri r sUri = Some ps \<and>
                fs = \<lparr>f_title = Set (Some ttl), f_status = Keep, f_loginHost = Set None,
                       f_serverId = Set (Some (sp_serverId ps)), f_serverUri = Set (Some sUri),
                       f_login = Set lg, f_cwd = Keep, f_initCommand = Keep\<rparr> \<and>
                filter is_update effs = [DocumentsUpdate (uri doc) fs] \<and>
                doc' = spread doc fs \<and>
                doc' = doc\<lparr>title := Some ttl, loginHost := None,
                            serverId := Some (sp_serverId ps), serverUri := Some sUri,
                            login := lg\<rparr>)"
proof (cases res)
  case (Inl err)
  with run show ?thesis by (simp add: resolveLoginHost_Inl)
next
  case (Inr doc')
  have t: "title_of_login lg hostname = ttl"
    using ttl by (simp add: title_of_login_def split: option.splits)
  from resolveLoginHost_Inr [OF lh parts cluster looked target run [unfolded Inr]]
  obtain ps where ps: "parseServerUri r sUri = Some ps"
    and effs: "effs = (case looked of Inl err \<Rightarrow> [LoggerError (message err)] | Inr srv \<Rightarrow> [])
             @ [DocumentsUpdate (uri doc)
                  (docFieldsToUpdate sUri (sp_serverId ps) lg (title_of_login lg hostname))]"
    and doc': "doc' = spread doc (docFieldsToUpdate sUri (sp_serverId ps) lg (title_of_login lg hostname))"
    by blast
  have fs: "docFieldsToUpdate sUri (sp_serverId ps) lg ttl =
      \<lparr>f_title = Set (Some ttl), f_status = Keep, f_loginHost = Set None,
        f_serverId = Set (Some (sp_serverId ps)), f_serverUri = Set (Some sUri),
        f_login = Set lg, f_cwd = Keep, f_initCommand = Keep\<rparr>"
    by (simp add: docFieldsToUpdate_def no_fields_def)
  have one: "filter is_update effs = [DocumentsUpdate (uri doc) (docFieldsToUpdate sUri (sp_serverId ps) lg ttl)]"
    unfolding effs t by (simp split: sum.splits)
  have merged: "spread doc (docFieldsToUpdate sUri (sp_serverId ps) lg ttl) =
      doc\<lparr>title := Some ttl, loginHost := None,
           serverId := Some (sp_serverId ps), serverUri := Some sUri, login := lg\<rparr>"
    unfolding fs by (simp add: spread_def)
  show ?thesis
    unfolding Inr using ps one doc' merged unfolding t fs by simp
qed

theorem resolveLoginHost_update_witness:
  "\<exists>ps fs.
     parseServerUri example_routing ''/clusters/prod/servers/1f4c0b5e'' = Some ps \<and>
     fs = \<lparr>f_title = Set (Some ''root@webserver1''), f_status = Keep, f_loginHost = Set None,
            f_serverId = Set (Some (sp_serverId ps)),
            f_serverUri = Set (Some ''/clusters/prod/servers/1f4c0b5e''),
            f_login = Set (Some ''root''), f_cwd = Keep, f_initCommand = Keep\<rparr> \<and>
     filter is_update
       (fst (resolveLoginHost example_routing (example_ctx (Inr (Some example_server)))
               (example_loginHost_doc ''root@webserver1''))) =
       [DocumentsUpdate ''/docs/1'' fs] \<and>
     snd (resolveLoginHost example_routing (example_ctx (Inr (Some example_server)))
            (example_loginHost_doc ''root@webserver1'')) =
       Inr ((example_loginHost_doc ''root@webserver1'')
              \<lparr>title := Some ''root@webserver1'', loginHost := None,
               serverId := Some (sp_serverId ps),
               serverUri := Some ''/clusters/prod/servers/1f4c0b5e'',
               login := Some ''root''\<rparr>)"
proof -
  obtain effs res where run:
    "resolveLoginHost example_routing (example_ctx (Inr (Some example_server)))
       (example_loginHost_doc ''root@webserver1'') = (effs, res)"
    by (cases "resolveLoginHost example_routing (example_ctx (Inr (Some example_server)))
       (example_loginHost_doc ''root@webserver1'')")
  have isr: "\<exists>d. res = Inr d"
    using run
    by (auto simp: resolveLoginHost_def Let_def example_loginHost_doc_def example_doc_def
        example_routing_def example_ctx_def example_server_def splitLoginHost_def)
  have lh: "loginHost (example_loginHost_doc ''root@webserver1'') = Some ''root@webserver1''"
    by (simp add: example_loginHost_doc_def)
  have parts: "splitLoginHost ''root@webserver1'' = (Some ''root'', ''webserver1'')"
    by (simp add: splitLoginHost_def)
  have cluster: "''/clusters/prod'' = getClusterUri example_routing
      (rootClusterId (example_loginHost_doc ''root@webserver1''))
      (leafClusterId (example_loginHost_doc ''root@webserver1''))"
    by (simp add: example_routing_def example_loginHost_doc_def example_doc_def)
  have looked: "retryWithRelogin (example_ctx (Inr (Some example_server))) ''/clusters/prod''
      (\<lambda>_. getServerByHostname (example_ctx (Inr (Some example_server))) ''/clusters/prod''
              ''webserver1'') = Inr (Some example_server)"
    by (simp add: example_ctx_def)
  have target: "(''/clusters/prod/servers/1f4c0b5e'', ''webserver1'') =
      (case (Inr (Some example_server) :: js_error + server option) of
         Inr (Some srv) \<Rightarrow> (srv_uri srv, srv_hostname srv)
       | _ \<Rightarrow> (getServerUri example_routing
                  (rootClusterId (example_loginHost_doc ''root@webserver1''))
                  (leafClusterId (example_loginHost_doc ''root@webserver1'')) ''webserver1'',
                ''webserver1''))"
    by (simp add: example_server_def)
  have ttl: "''root@webserver1'' =
      (case Some ''root'' of None \<Rightarrow> ''webserver1''
       | Some l \<Rightarrow> (if l = [] then ''webserver1'' else l @ ''@'' @ ''webserver1''))"
    by simp
  from isr obtain d where d: "res = Inr d" ..
  have uri: "uri (example_loginHost_doc ''root@webserver1'') = ''/docs/1''"
    by (simp add: example_loginHost_doc_def example_doc_def)
  show ?thesis
    using resolveLoginHost_update [OF lh parts cluster looked target ttl run]
    unfolding run d uri by auto
qed

text \<open>
  As the claim was stated it fails twice. For \<open>@host\<close> the login is present, as the empty
  string, and the title is \<open>host\<close>, not \<open>@host\<close>. And when the lookup throws another error
  than an ambiguous host name, no update is issued at all.
\<close>

theorem resolveLoginHost_update_counterexample:
  "map_sum id login (snd (resolveLoginHost example_routing (example_ctx (Inr None))
      (example_loginHost_doc ''@host''))) = Inr (Some []) \<and>
   map_sum id title (snd (resolveLoginHost example_routing (example_ctx (Inr None))
      (example_loginHost_doc ''@host''))) = Inr (Some ''host'') \<and>
   ''host'' \<noteq> [] @ ''@'' @ ''host'' \<and>
   resolveLoginHost example_routing (example_ctx (Inl (Error ''unavailable'')))
      (example_loginHost_doc ''root@webserver1'') = ([], Inl (Error ''unavailable''))"
  by (simp add: resolveLoginHost_def Let_def example_loginHost_doc_def example_doc_def
      example_routing_def example_ctx_def splitLoginHost_def title_of_login_def
      docFieldsToUpdate_def no_fields_def spread_def)





subsection \<open>A lookup that fails\<close>

text \<open>
  Claim C7. When the lookup throws an error that is not an \<open>AmbiguousHostnameError\<close>,
  \<open>resolveLoginHost\<close> throws that error again and has issued nothing, the attempt fails with
  the same error, and the callback of the hook, before it throws the error again, sets the
  status of the document to \<open>error\<close> when the document has a status.
\<close>

theorem startTerminal_callback_rethrow:
  assumes guard: "isDocumentTshNodeWithLoginHost doc"
    and lh: "loginHost doc = Some lh"
    and parts: "splitLoginHost lh = (lg, host)"
    and cluster: "clusterUri = getClusterUri r (rootClusterId doc) (leafClusterId doc)"
    and looked: "retryWithRelogin ctx clusterUri (\<lambda>_. getServerByHostname ctx clusterUri host) = Inl err"
    and other: "\<not> is_AmbiguousHostnameError err"
  shows "resolveLoginHost r ctx doc = ([], Inl err) \<and>
         startTerminalSession r ctx doc = ([], Inl err) \<and>
         startTerminal_callback r ctx doc =
           (if status doc \<noteq> None
            then ([DocumentsUpdate (uri doc) (no_fields\<lparr>f_status := Set (Some error)\<rparr>)], Inl err)
            else ([], Inl err))"
proof -
  have res: "resolveLoginHost r ctx doc = ([], Inl err)"
    by (rule resolveLoginHost_throw [OF lh parts cluster looked other])
  then have sess: "startTerminalSession r ctx doc = ([], Inl err)"
    using guard by (simp add: startTerminalSession_def)
  then show ?thesis
    using res by (simp add: startTerminal_callback_def)
qed

theorem startTerminal_callback_rethrow_witness:
  "startTerminal_callback example_routing (example_ctx (Inl (Error ''unavailable'')))
     (example_loginHost_doc ''root@webserver1'') =
     ([DocumentsUpdate ''/docs/1'' (no_fields\<lparr>f_status := Set (Some error)\<rparr>)],
      Inl (Error ''unavailable''))"
proof -
  have guard: "isDocumentTshNodeWithLoginHost (example_loginHost_doc ''root@webserver1'')"
    by (simp add: isDocumentTshNodeWithLoginHost_def example_loginHost_doc_def example_doc_def)
  have lh: "loginHost (example_loginHost_doc ''root@webserver1'') = Some ''root@webserver1''"
    by (simp add: example_loginHost_doc_def)
  have parts: "splitLoginHost ''root@webserver1'' = (Some ''root'', ''webserver1'')"
    by (simp add: splitLoginHost_def)
  have looked: "retryWithRelogin (example_ctx (Inl (Error ''unavailable''))) ''/clusters/prod''
      (\<lambda>_. getServerByHostname (example_ctx (Inl (Error ''unavailable''))) ''/clusters/prod''
              ''webserver1'') = Inl (Error ''unavailable'')"
    by (simp add: example_ctx_def)
  have cluster: "''/clusters/prod'' = getClusterUri example_routing
      (rootClusterId (example_loginHost_doc ''root@webserver1''))
      (leafClusterId (example_loginHost_doc ''root@webserver1''))"
    by (simp add: example_routing_def example_loginHost_doc_def example_doc_def)
  have other: "\<not> is_AmbiguousHostnameError (Error ''unavailable'')" by simp
  have tracked: "status (example_loginHost_doc ''root@webserver1'') \<noteq> None"
    "uri (example_loginHost_doc ''root@webserver1'') = ''/docs/1''"
    by (simp_all add: example_loginHost_doc_def example_doc_def)
  show ?thesis
    using startTerminal_callback_rethrow [OF guard lh parts cluster looked other] tracked
    by simp
qed

subsection \<open>The command builder\<close>

text \<open>
  Claim C8. \<open>createCmd\<close> throws exactly for an SSH document without a \<open>serverId\<close>, the
  login-host document that has not been resolved. For an SSH document with a \<open>serverId\<close>,
  for a Kubernetes document and for a shell document it returns the command of the kind of
  the document, and every command that it returns has the given \<open>proxyHost\<close> and
  \<open>clusterName\<close>.
\<close>

theorem createCmd_total:
  "((\<exists>err. createCmd doc pHost cName = Inl err) \<longleftrightarrow>
      kind doc = doc_terminal_tsh_node \<and> serverId doc = None) \<and>
   (isDocumentTshNodeWithLoginHost doc \<longrightarrow>
      createCmd doc pHost cName =
        Inl (Error ''Cannot create a PTY for doc.terminal_tsh_node without serverId'')) \<and>
   (kind doc = doc_terminal_tsh_node \<and> serverId doc \<noteq> None \<longrightarrow>
      createCmd doc pHost cName =
        Inr (pty_tsh_login pHost cName (login doc) (serverId doc)
               (rootClusterId doc) (leafClusterId doc))) \<and>
   (kind doc = doc_terminal_tsh_kube \<longrightarrow>
      createCmd doc pHost cName = Inr (pty_tsh_kube_login doc pHost cName)) \<and>
   (kind doc = doc_terminal_shell \<longrightarrow>
      createCmd doc pHost cName = Inr (pty_shell doc pHost cName (cwd doc) (initCommand doc))) \<and>
   (\<forall>cmd. createCmd doc pHost cName = Inr cmd \<longrightarrow>
      proxyHost cmd = pHost \<and> clusterName cmd = cName)"
  by (cases "kind doc") (auto simp: createCmd_def isDocumentTshNodeWithLoginHost_def)

theorem createCmd_total_witness:
  "createCmd (example_loginHost_doc ''root@webserver1'') ''prod.example.com:3080'' ''prod'' =
     Inl (Error ''Cannot create a PTY for doc.terminal_tsh_node without serverId'') \<and>
   createCmd ((example_doc doc_terminal_tsh_node)\<lparr>serverId := Some ''1f4c0b5e'', login := Some ''root''\<rparr>)
       ''prod.example.com:3080'' ''prod'' =
     Inr (pty_tsh_login ''prod.example.com:3080'' ''prod'' (Some ''root'') (Some ''1f4c0b5e'')
            (Some ''prod'') None) \<and>
   createCmd (example_doc doc_terminal_tsh_kube) ''prod.example.com:3080'' ''prod'' =
     Inr (pty_tsh_kube_login (example_doc doc_terminal_tsh_kube) ''prod.example.com:3080'' ''prod'') \<and>
   createCmd (example_doc doc_terminal_shell) ''prod.example.com:3080'' ''prod'' =
     Inr (pty_shell (example_doc doc_terminal_shell) ''prod.example.com:3080'' ''prod'' None None)"
  using createCmd_total [of "example_loginHost_doc ''root@webserver1''" "''prod.example.com:3080''" "''prod''"]
    createCmd_total [of "(example_doc doc_terminal_tsh_node)\<lparr>serverId := Some ''1f4c0b5e'', login := Some ''root''\<rparr>"
       "''prod.example.com:3080''" "''prod''"]
    createCmd_total [of "example_doc doc_terminal_tsh_kube" "''prod.example.com:3080''" "''prod''"]
    createCmd_total [of "example_doc doc_terminal_shell" "''prod.example.com:3080''" "''prod''"]
  by (simp add: example_loginHost_doc_def example_doc_def isDocumentTshNodeWithLoginHost_def)


subsection \<open>The listeners of a process\<close>

lemma setUpPtyProcess_Inr:
  assumes "setUpPtyProcess r ctx doc = (effs, Inr s)"
  shows "ts_doc s = doc"
    and "markDocumentAsConnectedOnce s = False"
    and "ts_clusterUri s = getClusterUri r (rootClusterId doc) (leafClusterId doc)"
    and "\<exists>rootCluster cName.
            findRootClusterByResource ctx (ts_clusterUri s) = Some rootCluster \<and>
            getClusterName r ctx (ts_clusterUri s) = Inr cName \<and>
            createCmd doc (cl_proxyHost rootCluster) cName = Inr (ts_cmd s)"
  using assms
  by (auto simp: setUpPtyProcess_def Let_def runOnce_def
      split: option.splits sum.splits prod.splits)

lemma example_setUp_shell:
  "setUpPtyProcess example_routing (example_ctx looked) (example_doc doc_terminal_shell) =
     ([], Inr example_shell_session)"
  by (simp add: setUpPtyProcess_def Let_def example_routing_def example_ctx_def example_doc_def
      getClusterName_def createCmd_def createPtyProcess_def runOnce_def
      example_shell_session_def)

lemma example_setUp_kube:
  "setUpPtyProcess example_routing (example_ctx looked) (example_doc doc_terminal_tsh_kube) =
     ([CaptureProtocolUse ''/clusters/prod'' ''kube''], Inr example_kube_session)"
  by (simp add: setUpPtyProcess_def Let_def example_routing_def example_ctx_def example_doc_def
      getClusterName_def createCmd_def createPtyProcess_def runOnce_def
      example_kube_session_def)



lemma dispatch_ts_doc: "ts_doc (fst (dispatch r ctx s ev)) = ts_doc s"
  by (cases ev) (simp_all add: onData_def runOnce_call_def)

lemma dispatch_gate:
  "markDocumentAsConnectedOnce (fst (dispatch r ctx s ev)) \<longleftrightarrow>
     markDocumentAsConnectedOnce s \<or> ev = DataEvent"
  by (cases ev) (simp_all add: onData_def runOnce_call_def)

lemma dispatch_status_updates:
  "filter is_status_update (snd (dispatch r ctx s ev)) =
     (if ev = DataEvent \<and> \<not> markDocumentAsConnectedOnce s \<and> status (ts_doc s) \<noteq> None
      then [DocumentsUpdate (uri (ts_doc s)) (no_fields\<lparr>f_status := Set (Some connected)\<rparr>)]
      else [])"
  by (cases ev)
    (simp_all add: onData_def runOnce_call_def onOpen_def onExit_def removeInitCommand_def
      refreshTitle_def no_fields_def split: sum.splits)

lemma dispatch_all_ts_doc: "ts_doc (fst (dispatch_all r ctx s evs)) = ts_doc s"
proof (induction evs arbitrary: s)
  case Nil
  show ?case by simp
next
  case (Cons ev evs)
  show ?case
    using Cons.IH [of "fst (dispatch r ctx s ev)"] dispatch_ts_doc [of r ctx s ev]
    by (simp add: split_beta)
qed

lemma dispatch_all_gate:
  "markDocumentAsConnectedOnce (fst (dispatch_all r ctx s evs)) \<longleftrightarrow>
     markDocumentAsConnectedOnce s \<or> DataEvent \<in> set evs"
proof (induction evs arbitrary: s)
  case Nil
  show ?case by simp
next
  case (Cons ev evs)
  show ?case
    using Cons.IH [of "fst (dispatch r ctx s ev)"] dispatch_gate [of r ctx s ev]
    by (auto simp: split_beta)
qed

lemma dispatch_all_status_updates:
  "filter is_status_update (snd (dispatch_all r ctx s evs)) =
     (if DataEvent \<in> set evs \<and> \<not> markDocumentAsConnectedOnce s \<and> status (ts_doc s) \<noteq> None
      then [DocumentsUpdate (uri (ts_doc s)) (no_fields\<lparr>f_status := Set (Some connected)\<rparr>)]
      else [])"
proof (induction evs arbitrary: s)
  case Nil
  show ?case by simp
next
  case (Cons ev evs)
  show ?case
    using Cons.IH [of "fst (dispatch r ctx s ev)"] dispatch_status_updates [of r ctx s ev]
      dispatch_gate [of r ctx s ev] dispatch_ts_doc [of r ctx s ev]
    by (auto simp: split_beta)
qed

text \<open>
  Claim C5. On an exit event the listener closes the document, so that the documents service
  removes it from the workspace, if and only if the exit code is zero. On another exit code
  it issues no call at all and the document stays where it is. The document is the one that
  \<open>setUpPtyProcess\<close> was given.
\<close>

theorem onExit_closes_on_zero:
  "dispatch r ctx s (ExitEvent exitCode) =
     (s, if exitCode = 0 then [DocumentsClose (uri (ts_doc s))] else []) \<and>
   (filter is_close (snd (dispatch r ctx s (ExitEvent exitCode))) \<noteq> [] \<longleftrightarrow> exitCode = 0) \<and>
   (setUpPtyProcess r ctx doc = (effs, Inr s) \<longrightarrow> ts_doc s = doc) \<and>
   (ds (uri (ts_doc s)) = Some d \<longrightarrow>
      (documents_after ds (snd (dispatch r ctx s (ExitEvent exitCode))) (uri (ts_doc s)) = None
         \<longleftrightarrow> exitCode = 0) \<and>
      (exitCode \<noteq> 0 \<longrightarrow>
         documents_after ds (snd (dispatch r ctx s (ExitEvent exitCode))) = ds))"
  using setUpPtyProcess_Inr(1) [of r ctx doc effs s]
  by (simp add: onExit_def documents_after_def)

theorem onExit_closes_on_zero_witness:
  "setUpPtyProcess example_routing (example_ctx (Inr None)) (example_doc doc_terminal_shell) =
     ([], Inr example_shell_session) \<and>
   dispatch example_routing (example_ctx (Inr None)) example_shell_session (ExitEvent 0) =
     (example_shell_session, [DocumentsClose ''/docs/1'']) \<and>
   dispatch example_routing (example_ctx (Inr None)) example_shell_session (ExitEvent 1) =
     (example_shell_session, []) \<and>
   documents_after [''/docs/1'' \<mapsto> example_doc doc_terminal_shell]
     (snd (dispatch example_routing (example_ctx (Inr None)) example_shell_session (ExitEvent 0)))
     ''/docs/1'' = None \<and>
   documents_after [''/docs/1'' \<mapsto> example_doc doc_terminal_shell]
     (snd (dispatch example_routing (example_ctx (Inr None)) example_shell_session (ExitEvent 1)))
     ''/docs/1'' = Some (example_doc doc_terminal_shell)"
proof -
  have u: "uri (ts_doc example_shell_session) = ''/docs/1''"
    by (simp add: example_shell_session_def example_doc_def)
  have there: "[''/docs/1'' \<mapsto> example_doc doc_terminal_shell] (uri (ts_doc example_shell_session))
      = Some (example_doc doc_terminal_shell)"
    unfolding u by simp
  show ?thesis
    using onExit_closes_on_zero [where r = example_routing and ctx = "example_ctx (Inr None)"
        and s = example_shell_session and exitCode = 0
        and ds = "[''/docs/1'' \<mapsto> example_doc doc_terminal_shell]"
        and d = "example_doc doc_terminal_shell" and doc = "example_doc doc_terminal_shell"
        and effs = "[]"]
      onExit_closes_on_zero [where r = example_routing and ctx = "example_ctx (Inr None)"
        and s = example_shell_session and exitCode = 1
        and ds = "[''/docs/1'' \<mapsto> example_doc doc_terminal_shell]"
        and d = "example_doc doc_terminal_shell" and doc = "example_doc doc_terminal_shell"
        and effs = "[]"]
      there example_setUp_shell [of "Inr None"]
    unfolding u by (simp add: onExit_def documents_after_def)
qed





text \<open>
  Claim C4. Take the session of a call of \<open>setUpPtyProcess\<close> that has returned; its gate has
  not been used. Whatever events its process sends, the calls that the listeners issue hold
  exactly one update of the status, to \<open>connected\<close>, when there is a data event and the
  document has a status, and none otherwise. The update is issued by the first data event;
  a data event after it issues nothing, and no event after it updates the status.
\<close>

theorem connected_once:
  assumes su: "setUpPtyProcess r ctx doc = (effs, Inr s)"
  shows "markDocumentAsConnectedOnce s = False \<and>
     filter is_status_update (snd (dispatch_all r ctx' s evs)) =
       (if DataEvent \<in> set evs \<and> status doc \<noteq> None
        then [DocumentsUpdate (uri doc) (no_fields\<lparr>f_status := Set (Some connected)\<rparr>)]
        else []) \<and>
     (DataEvent \<notin> set before \<longrightarrow>
        snd (dispatch r ctx' (fst (dispatch_all r ctx' s before)) DataEvent) =
          (if status doc \<noteq> None
           then [DocumentsUpdate (uri doc) (no_fields\<lparr>f_status := Set (Some connected)\<rparr>)]
           else [])) \<and>
     (DataEvent \<in> set before \<longrightarrow>
        snd (dispatch r ctx' (fst (dispatch_all r ctx' s before)) DataEvent) = [] \<and>
        filter is_status_update
          (snd (dispatch_all r ctx' (fst (dispatch_all r ctx' s before)) after)) = [])"
proof -
  have doc: "ts_doc s = doc" and fresh: "markDocumentAsConnectedOnce s = False"
    using setUpPtyProcess_Inr(1,2) [OF su] by simp_all
  have all: "filter is_status_update (snd (dispatch_all r ctx' s evs)) =
       (if DataEvent \<in> set evs \<and> status doc \<noteq> None
        then [DocumentsUpdate (uri doc) (no_fields\<lparr>f_status := Set (Some connected)\<rparr>)]
        else [])"
    by (simp add: dispatch_all_status_updates doc fresh)
  have gate: "markDocumentAsConnectedOnce (fst (dispatch_all r ctx' s before)) \<longleftrightarrow>
      DataEvent \<in> set before"
    by (simp add: dispatch_all_gate fresh)
  have d: "ts_doc (fst (dispatch_all r ctx' s before)) = doc"
    by (simp add: dispatch_all_ts_doc doc)
  have first: "DataEvent \<notin> set before \<longrightarrow>
        snd (dispatch r ctx' (fst (dispatch_all r ctx' s before)) DataEvent) =
          (if status doc \<noteq> None
           then [DocumentsUpdate (uri doc) (no_fields\<lparr>f_status := Set (Some connected)\<rparr>)]
           else [])"
    using gate d by (simp add: onData_def runOnce_call_def)
  have later: "DataEvent \<in> set before \<longrightarrow>
        snd (dispatch r ctx' (fst (dispatch_all r ctx' s before)) DataEvent) = [] \<and>
        filter is_status_update
          (snd (dispatch_all r ctx' (fst (dispatch_all r ctx' s before)) after)) = []"
    using gate by (simp add: onData_def runOnce_call_def dispatch_all_status_updates)
  from fresh all first later show ?thesis by blast
qed

theorem connected_once_witness:
  "filter is_status_update
     (snd (dispatch_all example_routing (example_ctx (Inr None)) example_kube_session
             [OpenEvent None, DataEvent, DataEvent, ExitEvent 1, DataEvent])) =
     [DocumentsUpdate ''/docs/1'' (no_fields\<lparr>f_status := Set (Some connected)\<rparr>)] \<and>
   snd (dispatch example_routing (example_ctx (Inr None))
          (fst (dispatch_all example_routing (example_ctx (Inr None)) example_kube_session
                  [OpenEvent None]))
          DataEvent) =
     [DocumentsUpdate ''/docs/1'' (no_fields\<lparr>f_status := Set (Some connected)\<rparr>)] \<and>
   snd (dispatch example_routing (example_ctx (Inr None))
          (fst (dispatch_all example_routing (example_ctx (Inr None)) example_kube_session
                  [OpenEvent None, DataEvent]))
          DataEvent) = []"
proof -
  have k: "status (example_doc doc_terminal_tsh_kube) = Some connecting"
    "uri (example_doc doc_terminal_tsh_kube) = ''/docs/1''"
    by (simp_all add: example_doc_def)
  note su = example_setUp_kube [of "Inr None"]
  from connected_once [OF su, where ctx' = "example_ctx (Inr None)"
      and evs = "[OpenEvent None, DataEvent, DataEvent, ExitEvent 1, DataEvent]", unfolded k]
  have a: "filter is_status_update
     (snd (dispatch_all example_routing (example_ctx (Inr None)) example_kube_session
             [OpenEvent None, DataEvent, DataEvent, ExitEvent 1, DataEvent])) =
     [DocumentsUpdate ''/docs/1'' (no_fields\<lparr>f_status := Set (Some connected)\<rparr>)]"
    by simp
  from connected_once [OF su, where ctx' = "example_ctx (Inr None)"
      and before = "[OpenEvent None]", unfolded k]
  have b: "snd (dispatch example_routing (example_ctx (Inr None))
          (fst (dispatch_all example_routing (example_ctx (Inr None)) example_kube_session
                  [OpenEvent None]))
          DataEvent) =
     [DocumentsUpdate ''/docs/1'' (no_fields\<lparr>f_status := Set (Some connected)\<rparr>)]"
    by simp
  from connected_once [OF su, where ctx' = "example_ctx (Inr None)"
      and before = "[OpenEvent None, DataEvent]", unfolded k]
  have c: "snd (dispatch example_routing (example_ctx (Inr None))
          (fst (dispatch_all example_routing (example_ctx (Inr None)) example_kube_session
                  [OpenEvent None, DataEvent]))
          DataEvent) = []"
    by simp
  from a b c show ?thesis by simp
qed


subsection \<open>Reconnecting\<close>

text \<open>
  Claim C9. On a document with a status, \<open>reconnect\<close> first issues the update of the status
  to \<open>connecting\<close>, so that the stored document is connecting before the new attempt does
  anything, and then starts the attempt. The attempt that it replaces is cleaned up: when
  that attempt was a success, its process is disposed; an attempt without a process has
  nothing to dispose.
\<close>

theorem reconnect_connecting_first:
  assumes tracked: "status doc \<noteq> None"
  shows "fst (reconnect r ctx doc att) =
           DocumentsUpdate (uri doc) (no_fields\<lparr>f_status := Set (Some connecting)\<rparr>)
             # useEffect_cleanup att @ fst (startTerminal_callback r ctx doc) \<and>
         (\<forall>s. att = Success s \<longrightarrow>
            useEffect_cleanup att = [Dispose (ptyProcess s)] \<and>
            Dispose (ptyProcess s) \<in> set (fst (reconnect r ctx doc att))) \<and>
         (att = Idle \<or> att = Running \<or> (\<exists>err. att = Failure err) \<longrightarrow>
            useEffect_cleanup att = []) \<and>
         snd (reconnect r ctx doc att) =
           (case snd (startTerminal_callback r ctx doc) of
              Inl err \<Rightarrow> Failure err
            | Inr s \<Rightarrow> Success s) \<and>
         (ds (uri doc) = Some d \<longrightarrow>
            documents_after ds (take 1 (fst (reconnect r ctx doc att))) (uri doc) =
              Some (d\<lparr>status := Some connecting\<rparr>))"
proof -
  have trace: "fst (reconnect r ctx doc att) =
           DocumentsUpdate (uri doc) (no_fields\<lparr>f_status := Set (Some connecting)\<rparr>)
             # useEffect_cleanup att @ fst (startTerminal_callback r ctx doc)"
    using tracked
    by (simp add: reconnect_def startTerminal_def useEffect_cleanup_def split: prod.splits)
  have disposed: "\<forall>s. att = Success s \<longrightarrow>
            useEffect_cleanup att = [Dispose (ptyProcess s)] \<and>
            Dispose (ptyProcess s) \<in> set (fst (reconnect r ctx doc att))"
    unfolding trace by (simp add: useEffect_cleanup_def)
  have no_handle: "att = Idle \<or> att = Running \<or> (\<exists>err. att = Failure err) \<longrightarrow>
            useEffect_cleanup att = []"
    by (auto simp: useEffect_cleanup_def)
  have next_attempt: "snd (reconnect r ctx doc att) =
           (case snd (startTerminal_callback r ctx doc) of
              Inl err \<Rightarrow> Failure err
            | Inr s \<Rightarrow> Success s)"
    by (simp add: reconnect_def startTerminal_def split: prod.splits)
  have stored: "ds (uri doc) = Some d \<longrightarrow>
            documents_after ds (take 1 (fst (reconnect r ctx doc att))) (uri doc) =
              Some (d\<lparr>status := Some connecting\<rparr>)"
    unfolding trace by (simp add: documents_after_def spread_def no_fields_def)
  from trace disposed no_handle next_attempt stored show ?thesis by blast
qed

theorem reconnect_connecting_first_witness:
  "fst (reconnect example_routing (example_ctx (Inr None)) (example_doc doc_terminal_tsh_kube)
          (Success example_kube_session)) =
     [DocumentsUpdate ''/docs/1'' (no_fields\<lparr>f_status := Set (Some connecting)\<rparr>),
      Dispose 1,
      CaptureProtocolUse ''/clusters/prod'' ''kube''] \<and>
   snd (reconnect example_routing (example_ctx (Inr None)) (example_doc doc_terminal_tsh_kube)
          (Success example_kube_session)) = Success example_kube_session"
proof -
  have tracked: "status (example_doc doc_terminal_tsh_kube) \<noteq> None"
    by (simp add: example_doc_def)
  have u: "uri (example_doc doc_terminal_tsh_kube) = ''/docs/1''"
    by (simp add: example_doc_def)
  have k: "kind (example_doc doc_terminal_tsh_kube) = doc_terminal_tsh_kube"
    by (simp add: example_doc_def)
  have cb: "startTerminal_callback example_routing (example_ctx (Inr None))
      (example_doc doc_terminal_tsh_kube) =
      ([CaptureProtocolUse ''/clusters/prod'' ''kube''], Inr example_kube_session)"
    using k
    by (simp add: startTerminal_callback_def startTerminalSession_def example_setUp_kube
        isDocumentTshNodeWithLoginHost_def)
  have p: "ptyProcess example_kube_session = 1"
    by (simp add: example_kube_session_def)
  from reconnect_connecting_first [OF tracked, where r = example_routing
      and ctx = "example_ctx (Inr None)" and att = "Success example_kube_session",
      unfolded u cb]
  show ?thesis
    by (simp add: useEffect_cleanup_def p)
qed


end
